theory Spec2Isabelle
  imports Main
begin

section \<open>JavaScript values\<close>

text \<open>
  The request bodies and the gateway fields are JSON-born JavaScript values. A string is a
  list of characters, one per code unit. A Number is modelled by its integer value: the
  code below only tests numbers for zero and sign and prints them, and an integer prints
  as its decimal digits. An object lists its own properties in enumeration order.
\<close>

datatype jsval =
    JUndefined
  | JNull
  | JBool bool
  | JNum int
  | JStr string
  | JArr "jsval list"
  | JObj "(string \<times> jsval) list"

text \<open>ToBoolean: what \<open>!v\<close>, \<open>v || d\<close> and \<open>v ? a : b\<close> test.\<close>

fun truthy :: "jsval \<Rightarrow> bool" where
  "truthy JUndefined = False"
| "truthy JNull = False"
| "truthy (JBool b) = b"
| "truthy (JNum n) = (n \<noteq> 0)"
| "truthy (JStr s) = (s \<noteq> [])"
| "truthy (JArr xs) = True"
| "truthy (JObj ps) = True"

text \<open>\<open>a || b\<close>\<close>

definition js_or :: "jsval \<Rightarrow> jsval \<Rightarrow> jsval" where
  "js_or a b = (if truthy a then a else b)"

text \<open>
  Property read \<open>v.name\<close> for the property names this program reads; none of them is a
  built-in property of strings, numbers, booleans or arrays, so only an object can hold
  one. Reading a property of \<open>null\<close> or \<open>undefined\<close> raises a TypeError (\<open>None\<close>).
\<close>

fun getProp :: "jsval \<Rightarrow> string \<Rightarrow> jsval option" where
  "getProp JUndefined k = None"
| "getProp JNull k = None"
| "getProp (JObj ps) k = (case map_of ps k of None \<Rightarrow> Some JUndefined | Some v \<Rightarrow> Some v)"
| "getProp v k = Some JUndefined"

text \<open>Optional chaining \<open>v?.name\<close>.\<close>

definition getPropOpt :: "jsval \<Rightarrow> string \<Rightarrow> jsval" where
  "getPropOpt v k = (case getProp v k of None \<Rightarrow> JUndefined | Some w \<Rightarrow> w)"

subsection \<open>Number and value to string\<close>

function decimal :: "nat \<Rightarrow> string" where
  "decimal n = (if n < 10 then [''0123456789'' ! n]
                else decimal (n div 10) @ [''0123456789'' ! (n mod 10)])"
  by pat_completeness auto
termination
  by (relation "measure id") auto

declare decimal.simps [simp del]

definition numToString :: "int \<Rightarrow> string" where
  "numToString n = (if n < 0 then CHR ''-'' # decimal (nat (- n)) else decimal (nat n))"

fun join :: "string \<Rightarrow> string list \<Rightarrow> string" where
  "join sep [] = []"
| "join sep [x] = x"
| "join sep (x # y # ys) = x @ sep @ join sep (y # ys)"

text \<open>\<open>String(v)\<close>: an array joins its elements with commas, \<open>null\<close> and \<open>undefined\<close>
  elements giving nothing; a plain object gives a fixed text.\<close>

fun toString :: "jsval \<Rightarrow> string" where
  "toString JUndefined = ''undefined''"
| "toString JNull = ''null''"
| "toString (JBool b) = (if b then ''true'' else ''false'')"
| "toString (JNum n) = numToString n"
| "toString (JStr s) = s"
| "toString (JArr xs) =
     join '','' (map (\<lambda>v. if v = JUndefined \<or> v = JNull then [] else toString v) xs)"
| "toString (JObj ps) = ''[object Object]''"

section \<open>The gateway request document\<close>

text \<open>\<open>s.replace(/c/g, r)\<close> for a one-character pattern.\<close>

definition replaceAll :: "char \<Rightarrow> string \<Rightarrow> string \<Rightarrow> string" where
  "replaceAll c r s = concat (map (\<lambda>x. if x = c then r else [x]) s)"

definition escapeXml :: "jsval \<Rightarrow> string" where
  "escapeXml str =
     (if \<not> truthy str then []
      else replaceAll (CHR 0x27) ''&apos;''
             (replaceAll (CHR 0x22) ''&quot;''
               (replaceAll CHR ''>'' ''&gt;''
                 (replaceAll CHR ''<'' ''&lt;''
                   (replaceAll CHR ''&'' ''&amp;'' (toString str))))))"

record config =
  apiLoginId :: string
  transactionKey :: string
  baseUrl :: string
  appleMerchantId :: string
  appleMerchantCertPath :: string
  appleMerchantKeyPath :: string

record transactionData =
  refId :: jsval
  amount :: jsval
  dataDescriptor :: jsval
  dataValue :: jsval
  invoiceNumber :: jsval
  description :: jsval
  customerId :: jsval
  email :: jsval
  billingAddress :: jsval

abbreviation nl :: string where
  "nl \<equiv> [CHR 0x0A]"

text \<open>The template literal of \<open>createXmlRequest\<close>, line by line.\<close>

definition createXmlRequest :: "config \<Rightarrow> transactionData \<Rightarrow> string" where
  \<open>createXmlRequest cfg td = concat [
     ''<?xml version="1.0" encoding="utf-8"?>'', nl,
     ''<createTransactionRequest xmlns="AnetApi/xml/v1/schema/AnetApiSchema.xsd">'', nl,
     ''  <merchantAuthentication>'', nl,
     ''    <name>'', escapeXml (JStr (apiLoginId cfg)), ''</name>'', nl,
     ''    <transactionKey>'', escapeXml (JStr (transactionKey cfg)), ''</transactionKey>'', nl,
     ''  </merchantAuthentication>'', nl,
     ''  <refId>'', escapeXml (js_or (refId td) (JStr [])), ''</refId>'', nl,
     ''  <transactionRequest>'', nl,
     ''    <transactionType>authCaptureTransaction</transactionType>'', nl,
     ''    <amount>'', escapeXml (amount td), ''</amount>'', nl,
     ''    <payment>'', nl,
     ''      <opaqueData>'', nl,
     ''        <dataDescriptor>'', escapeXml (dataDescriptor td), ''</dataDescriptor>'', nl,
     ''        <dataValue>'', escapeXml (dataValue td), ''</dataValue>'', nl,
     ''      </opaqueData>'', nl,
     ''    </payment>'', nl,
     ''    <order>'', nl,
     ''      <invoiceNumber>'', escapeXml (js_or (invoiceNumber td) (JStr [])),
         ''</invoiceNumber>'', nl,
     ''      <description>'', escapeXml (js_or (description td) (JStr ''Apple Pay Payment'')),
         ''</description>'', nl,
     ''    </order>'', nl,
     ''    <customer>'', nl,
     ''      <id>'', escapeXml (js_or (customerId td) (JStr [])), ''</id>'', nl,
     ''      <email>'', escapeXml (js_or (email td) (JStr [])), ''</email>'', nl,
     ''    </customer>'', nl,
     ''    <billTo>'', nl,
     ''      <firstName>'',
         escapeXml (js_or (getPropOpt (billingAddress td) ''firstName'') (JStr [])),
         ''</firstName>'', nl,
     ''      <lastName>'',
         escapeXml (js_or (getPropOpt (billingAddress td) ''lastName'') (JStr [])),
         ''</lastName>'', nl,
     ''      <company>'',
         escapeXml (js_or (getPropOpt (billingAddress td) ''company'') (JStr [])),
         ''</company>'', nl,
     ''      <address>'',
         escapeXml (js_or (getPropOpt (billingAddress td) ''address'') (JStr [])),
         ''</address>'', nl,
     ''      <city>'',
         escapeXml (js_or (getPropOpt (billingAddress td) ''city'') (JStr [])),
         ''</city>'', nl,
     ''      <state>'',
         escapeXml (js_or (getPropOpt (billingAddress td) ''state'') (JStr [])),
         ''</state>'', nl,
     ''      <zip>'',
         escapeXml (js_or (getPropOpt (billingAddress td) ''zip'') (JStr [])),
         ''</zip>'', nl,
     ''      <country>'',
         escapeXml (js_or (getPropOpt (billingAddress td) ''country'') (JStr [])),
         ''</country>'', nl,
     ''    </billTo>'', nl,
     ''  </transactionRequest>'', nl,
     ''</createTransactionRequest>'']\<close>

text \<open>The reserved characters other than the ampersand, and the test that every ampersand
  of a text starts one of the five entity references.\<close>

definition is_markup :: "char \<Rightarrow> bool" where
  "is_markup c = (c = CHR ''<'' \<or> c = CHR ''>'' \<or> c = CHR 0x22 \<or> c = CHR 0x27)"

text \<open>\<open>s.startsWith(p)\<close>: a literal matched at the start of the text.\<close>

fun startsWith :: "string \<Rightarrow> string \<Rightarrow> bool" where
  "startsWith s [] = True"
| "startsWith [] (p # ps) = False"
| "startsWith (c # cs) (p # ps) = (if c = p then startsWith cs ps else False)"

definition starts_entity :: "string \<Rightarrow> bool" where
  "starts_entity s = (startsWith s ''amp;'' \<or> startsWith s ''lt;'' \<or> startsWith s ''gt;''
      \<or> startsWith s ''quot;'' \<or> startsWith s ''apos;'')"

fun amp_ok :: "string \<Rightarrow> bool" where
  "amp_ok [] = True"
| "amp_ok (c # cs) = ((if c = CHR ''&'' then starts_entity cs else True) \<and> amp_ok cs)"

section \<open>The gateway response parser\<close>

text \<open>
  The regular expressions of \<open>parseXmlResponse\<close>, as the backtracking matcher runs them.
  A lazy group \<open>(X*?)\<close> followed by a closing literal tries the literal first and
  otherwise consumes one more character of class \<open>X\<close>; the result is the capture and the
  text after the match.
\<close>

fun lazyUntil :: "(char \<Rightarrow> bool) \<Rightarrow> string \<Rightarrow> string \<Rightarrow> (string \<times> string) option" where
  "lazyUntil cls close [] = (if close = [] then Some ([], []) else None)"
| "lazyUntil cls close (c # cs) =
     (if startsWith (c # cs) close then Some ([], drop (length close) (c # cs))
      else if cls c then
        (case lazyUntil cls close cs of
           None \<Rightarrow> None
         | Some (cap, rest) \<Rightarrow> Some (c # cap, rest))
      else None)"

text \<open>\<open>.\<close> matches any character but a line terminator; \<open>[\s\S]\<close> matches any.\<close>

definition dot :: "char \<Rightarrow> bool" where
  "dot c = (c \<noteq> CHR 0x0A \<and> c \<noteq> CHR 0x0D)"

definition anyChar :: "char \<Rightarrow> bool" where
  "anyChar c = True"

text \<open>\<open><name>(X*?)</name>\<close> tried at the start of the text.\<close>

definition tagAt :: "(char \<Rightarrow> bool) \<Rightarrow> string \<Rightarrow> string \<Rightarrow> (string \<times> string) option" where
  "tagAt cls name s =
     (if startsWith s (''<'' @ name @ ''>'')
      then lazyUntil cls (''</'' @ name @ ''>'') (drop (length name + 2) s)
      else None)"

text \<open>\<open><name[^>]*>([\s\S]*?)</name>\<close> tried at the start of the text: the greedy
  \<open>[^>]*\<close> must stop at the first \<open>>\<close>, since giving back characters leaves a
  character that is not \<open>>\<close> in front of the literal \<open>>\<close>.\<close>

definition blockAt :: "string \<Rightarrow> string \<Rightarrow> (string \<times> string) option" where
  "blockAt name s =
     (if startsWith s (''<'' @ name)
      then (case dropWhile (\<lambda>c. c \<noteq> CHR ''>'') (drop (length name + 1) s) of
              [] \<Rightarrow> None
            | c # rest \<Rightarrow> lazyUntil anyChar (''</'' @ name @ ''>'') rest)
      else None)"

text \<open>The matcher tries each start position from the left.\<close>

fun search :: "(string \<Rightarrow> 'a option) \<Rightarrow> string \<Rightarrow> 'a option" where
  "search m [] = m []"
| "search m (c # cs) = (case m (c # cs) of Some r \<Rightarrow> Some r | None \<Rightarrow> search m cs)"

text \<open>\<open>s.match(re)\<close> without the global flag: the first match's group 1.\<close>

definition matchTag :: "string \<Rightarrow> string \<Rightarrow> string option" where
  "matchTag name s = map_option fst (search (tagAt dot name) s)"

definition matchBlock :: "string \<Rightarrow> string \<Rightarrow> string option" where
  "matchBlock name s = map_option fst (search (blockAt name) s)"

text \<open>\<open>s.matchAll(/<name>([\s\S]*?)<\/name>/g)\<close>: each search resumes where the previous
  match ended; the loop collects group 1 of every match.\<close>

function matchAllTag :: "string \<Rightarrow> string \<Rightarrow> string list" where
  "matchAllTag name s =
     (case search (tagAt anyChar name) s of
        None \<Rightarrow> []
      | Some (cap, rest) \<Rightarrow> cap # matchAllTag name rest)"
  by pat_completeness auto
termination
proof (relation "measure (\<lambda>(name, s). length s)")
  show "wf (measure (\<lambda>(name, s). length s))" by simp
next
  fix name s :: string and x2 :: "string \<times> string" and cap rest :: string
  assume found: "search (tagAt anyChar name) s = Some x2" and x2: "(cap, rest) = x2"
  have lazy: "length r \<le> length t"
    if "lazyUntil cls cl t = Some (c, r)" for cls cl t c r
    using that
  proof (induction t arbitrary: c r)
    case Nil
    then show ?case by (simp split: if_splits)
  next
    case (Cons a t)
    show ?case
    proof (cases "startsWith (a # t) cl")
      case True
      with Cons.prems show ?thesis by auto
    next
      case False
      with Cons.prems obtain cap' where "lazyUntil cls cl t = Some (cap', r)"
        by (auto split: if_splits option.splits)
      from Cons.IH [OF this] show ?thesis by simp
    qed
  qed
  have sw_len: "length p \<le> length t" if "startsWith t p" for t p :: string
    using that by (induction t p rule: startsWith.induct) (simp_all split: if_splits)
  have at: "length r < length t" if a: "tagAt anyChar name t = Some (c, r)" for t c r
  proof -
    from a have sw: "startsWith t (''<'' @ name @ ''>'')"
      and lz: "lazyUntil anyChar (''</'' @ name @ ''>'') (drop (length name + 2) t) = Some (c, r)"
      by (auto simp: tagAt_def split: if_splits)
    from sw_len [OF sw] have "length name + 2 \<le> length t" by simp
    moreover from lazy [OF lz] have "length r \<le> length t - (length name + 2)" by simp
    ultimately show ?thesis by simp
  qed
  have srch: "length r < length t" if "search (tagAt anyChar name) t = Some (c, r)" for t c r
    using that
  proof (induction t)
    case Nil
    then show ?case using at [of "[]" c r] by simp
  next
    case (Cons a t)
    show ?case
    proof (cases "tagAt anyChar name (a # t)")
      case None
      with Cons show ?thesis by simp
    next
      case (Some x)
      with Cons.prems at [of "a # t" c r] show ?thesis by simp
    qed
  qed
  from found x2 have "length rest < length s"
    using srch [of s cap rest] by simp
  then show "((name, rest), name, s) \<in> measure (\<lambda>(name, s). length s)" by simp
qed

declare matchAllTag.simps [simp del]

datatype errorEntry =
    TransactionError string string
  | MessageError string string

text \<open>A TransactionError is an object \<open>{errorCode, errorText}\<close>, a MessageError an object
  \<open>{code, text}\<close>. An absent field of the parsed response is \<open>None\<close>.\<close>

record txResponse =
  responseCode :: "string option"
  authCode :: "string option"
  transId :: "string option"
  errors :: "errorEntry list option"

record msgBlock =
  resultCode :: "string option"
  message :: "errorEntry list option"

record parsedResponse =
  transactionResponse :: txResponse
  messages :: msgBlock

definition orEmpty :: "string option \<Rightarrow> string" where
  "orEmpty m = (case m of Some x \<Rightarrow> x | None \<Rightarrow> [])"

definition nonEmptyList :: "'a list \<Rightarrow> 'a list option" where
  "nonEmptyList xs = (if length xs > 0 then Some xs else None)"

definition parseXmlResponse :: "string \<Rightarrow> parsedResponse" where
  "parseXmlResponse xmlString =
     \<lparr>transactionResponse =
        (case matchBlock ''transactionResponse'' xmlString of
           None \<Rightarrow> \<lparr>responseCode = None, authCode = None, transId = None, errors = None\<rparr>
         | Some transXml \<Rightarrow>
             \<lparr>responseCode = matchTag ''responseCode'' transXml,
              authCode = matchTag ''authCode'' transXml,
              transId = matchTag ''transId'' transXml,
              errors = nonEmptyList
                (map (\<lambda>errorXml. TransactionError
                        (orEmpty (matchTag ''errorCode'' errorXml))
                        (orEmpty (matchTag ''errorText'' errorXml)))
                   (matchAllTag ''error'' transXml))\<rparr>),
      messages =
        (case matchBlock ''messages'' xmlString of
           None \<Rightarrow> \<lparr>resultCode = None, message = None\<rparr>
         | Some messagesXml \<Rightarrow>
             \<lparr>resultCode = matchTag ''resultCode'' messagesXml,
              message = nonEmptyList
                (map (\<lambda>messageErrorXml. MessageError
                        (orEmpty (matchTag ''code'' messageErrorXml))
                        (orEmpty (matchTag ''text'' messageErrorXml)))
                   (matchAllTag ''message'' messagesXml))\<rparr>)\<rparr>"



section \<open>The payment token translator\<close>

subsection \<open>Re-encoding of the payment data\<close>

text \<open>\<open>JSON.stringify\<close> without indentation. A string is quoted with the two-character
  escapes for the quote, the backslash and the five named control characters, and
  \<open>\u00XX\<close> for the other characters below U+0020. \<open>undefined\<close> has no JSON text
  (\<open>None\<close>); inside an array it is written \<open>null\<close>, inside an object the property is
  left out.\<close>

definition hexDigit :: "nat \<Rightarrow> char" where
  "hexDigit d = ''0123456789abcdef'' ! d"

definition quoteJSONChar :: "char \<Rightarrow> string" where
  "quoteJSONChar c =
     (if c = CHR 0x22 then [CHR 0x5C, CHR 0x22]
      else if c = CHR 0x5C then [CHR 0x5C, CHR 0x5C]
      else if c = CHR 0x08 then [CHR 0x5C, CHR ''b'']
      else if c = CHR 0x0C then [CHR 0x5C, CHR ''f'']
      else if c = CHR 0x0A then [CHR 0x5C, CHR ''n'']
      else if c = CHR 0x0D then [CHR 0x5C, CHR ''r'']
      else if c = CHR 0x09 then [CHR 0x5C, CHR ''t'']
      else if (of_char c :: nat) < 32
        then [CHR 0x5C, CHR ''u'', CHR ''0'', CHR ''0'',
              hexDigit (of_char c div 16), hexDigit (of_char c mod 16)]
      else [c])"

definition quoteJSONString :: "string \<Rightarrow> string" where
  "quoteJSONString s = [CHR 0x22] @ concat (map quoteJSONChar s) @ [CHR 0x22]"

fun JSON_stringify :: "jsval \<Rightarrow> string option" where
  "JSON_stringify JUndefined = None"
| "JSON_stringify JNull = Some ''null''"
| "JSON_stringify (JBool b) = Some (if b then ''true'' else ''false'')"
| "JSON_stringify (JNum n) = Some (numToString n)"
| "JSON_stringify (JStr s) = Some (quoteJSONString s)"
| "JSON_stringify (JArr xs) =
     Some (''['' @ join '',''
             (map (\<lambda>v. case JSON_stringify v of None \<Rightarrow> ''null'' | Some t \<Rightarrow> t) xs)
           @ '']'')"
| "JSON_stringify (JObj ps) =
     Some (''{'' @ join '',''
             (concat (map (\<lambda>p. case JSON_stringify (snd p) of
                                None \<Rightarrow> []
                              | Some t \<Rightarrow> [quoteJSONString (fst p) @ '':'' @ t]) ps))
           @ ''}'')"

text \<open>\<open>Buffer.from(s, 'utf8')\<close>: the bytes of the UTF-8 encoding, one byte for a character
  below U+0080 and two for the others of this character type.\<close>

definition utf8 :: "string \<Rightarrow> nat list" where
  "utf8 s = concat (map (\<lambda>c. if (of_char c :: nat) < 128 then [of_char c]
                               else [192 + of_char c div 64, 128 + of_char c mod 64]) s)"

text \<open>\<open>buf.toString('base64')\<close>: the standard alphabet, three bytes to four characters,
  padded with \<open>=\<close>.\<close>

definition b64 :: "nat \<Rightarrow> char" where
  "b64 i = ''ABCDEFGHIJKLMNOPQRSTUVWXYZabcdefghijklmnopqrstuvwxyz0123456789+/'' ! i"

fun base64 :: "nat list \<Rightarrow> string" where
  "base64 [] = []"
| "base64 [a] = [b64 (a div 4), b64 (a mod 4 * 16), CHR ''='', CHR ''='']"
| "base64 [a, b] = [b64 (a div 4), b64 (a mod 4 * 16 + b div 16), b64 (b mod 16 * 4), CHR ''='']"
| "base64 (a # b # c # bs) =
     [b64 (a div 4), b64 (a mod 4 * 16 + b div 16), b64 (b mod 16 * 4 + c div 64), b64 (c mod 64)]
     @ base64 bs"

subsection \<open>Responses, failures and results\<close>

record httpResponse =
  http_status :: int
  http_statusText :: string
  http_data :: string

text \<open>What \<open>axios.post\<close> settles to: it resolves on a 2xx status, rejects with an error
  carrying \<open>response\<close> on any other status, and rejects with an error without
  \<open>response\<close> when no response arrives (network failure, timeout). The body of a
  response is text.\<close>

datatype postOutcome =
    Resolved httpResponse
  | RejectedWithResponse string httpResponse
  | RejectedNoResponse string

text \<open>The object stored as \<open>error.authorizeNetError\<close>; a property the code does not set
  is \<open>None\<close>.\<close>

record authorizeNetError =
  ane_status :: "int option"
  ane_statusText :: "string option"
  ane_resultCode :: "string option"
  ane_responseCode :: "string option"
  ane_errors :: "errorEntry list"
  ane_messageErrors :: "errorEntry list option"
  ane_transactionErrors :: "errorEntry list option"
  ane_response :: parsedResponse
  ane_rawResponse :: "string option"

text \<open>A thrown error: its class name, its message (not modelled for the errors the engine
  raises itself) and the properties the program attaches: \<open>type\<close>, \<open>details\<close> (a pair
  of field and constraint), \<open>fields\<close>, \<open>code\<close>, \<open>originalError\<close>, \<open>applePayError\<close>,
  the \<open>response\<close> of a transport error and \<open>authorizeNetError\<close>.\<close>

record fieldError =
  fe_field :: string
  fe_constraint :: string
  fe_message :: string

record applePayError =
  ape_type :: "string option"
  ape_message :: "string option"
  ape_path :: "string option"
  ape_statusCode :: "int option"
  ape_statusMessage :: "string option"
  ape_response :: "string option"

record failure =
  err_name :: string
  err_message :: string
  err_type :: "string option"
  err_details :: "(string \<times> string) option"
  err_fields :: "fieldError list option"
  err_code :: "string option"
  err_originalError :: "string option"
  err_applePayError :: "applePayError option"
  err_response :: "httpResponse option"
  err_authorizeNetError :: "authorizeNetError option"

definition newError :: "string \<Rightarrow> failure" where
  "newError msg = \<lparr>err_name = ''Error'', err_message = msg, err_type = None,
     err_details = None, err_fields = None, err_code = None, err_originalError = None,
     err_applePayError = None, err_response = None, err_authorizeNetError = None\<rparr>"

definition typeError :: failure where
  "typeError = (newError [])\<lparr>err_name := ''TypeError''\<rparr>"

definition syntaxError :: failure where
  "syntaxError = (newError [])\<lparr>err_name := ''SyntaxError''\<rparr>"

definition axiosError :: "string \<Rightarrow> httpResponse option \<Rightarrow> failure" where
  "axiosError msg r = (newError msg)\<lparr>err_name := ''AxiosError'', err_response := r\<rparr>"

record transactionResult =
  success :: bool
  transactionId :: "string option"
  res_authCode :: "string option"
  res_responseCode :: "string option"
  res_amount :: jsval
  details :: txResponse

record paymentRequest =
  paymentToken :: jsval
  req_amount :: jsval
  userId :: jsval
  orderInfo :: jsval

datatype effect =
    ReadFile string
  | HttpsRequest jsval string
  | AxiosPost string string

subsection \<open>Building the transaction data\<close>

text \<open>\<open>v.slice(0, 20)\<close>: strings and arrays have the method; calling it on any other
  truthy value raises a TypeError.\<close>

fun slice20 :: "jsval \<Rightarrow> jsval option" where
  "slice20 (JStr s) = Some (JStr (take 20 s))"
| "slice20 (JArr xs) = Some (JArr (take 20 xs))"
| "slice20 v = None"

definition isSpace :: "char \<Rightarrow> bool" where
  "isSpace c = (c = CHR 0x09 \<or> c = CHR 0x0A \<or> c = CHR 0x0B \<or> c = CHR 0x0C \<or> c = CHR 0x0D
      \<or> c = CHR 0x20 \<or> c = CHR 0xA0)"

definition trim :: "string \<Rightarrow> string" where
  "trim s = rev (dropWhile isSpace (rev (dropWhile isSpace s)))"

text \<open>Lines 176 to 178: a token given as text is parsed. \<open>JSON_parse\<close> is the platform's
  \<open>JSON.parse\<close>, \<open>None\<close> when it raises a SyntaxError.\<close>

definition parseToken :: "(string \<Rightarrow> jsval option) \<Rightarrow> jsval \<Rightarrow> failure + jsval" where
  "parseToken JSON_parse paymentToken' =
     (case paymentToken' of
        JStr t \<Rightarrow> (case JSON_parse t of None \<Rightarrow> Inl syntaxError | Some v \<Rightarrow> Inr v)
      | v \<Rightarrow> Inr v)"

text \<open>Line 190: \<open>Buffer.from(JSON.stringify(paymentData), 'utf8').toString('base64')\<close>;
  \<open>Buffer.from\<close> raises a TypeError when there is no JSON text.\<close>

definition encodePaymentData :: "jsval \<Rightarrow> string option" where
  "encodePaymentData paymentData =
     (case JSON_stringify paymentData of
        None \<Rightarrow> None
      | Some json \<Rightarrow> Some (base64 (utf8 json)))"

text \<open>Lines 196 to 198: the invoice number; \<open>None\<close> is a TypeError (\<open>orderInfo\<close> is
  \<open>null\<close>, or the value given has no \<open>slice\<close>). \<open>now\<close> is the value of
  \<open>Date.now()\<close>.\<close>

definition invoiceNumberOf :: "nat \<Rightarrow> jsval \<Rightarrow> jsval option" where
  "invoiceNumberOf now oi =
     (case getProp oi ''invoiceNumber'' of
        None \<Rightarrow> None
      | Some given \<Rightarrow>
          if truthy given then slice20 given
          else Some (JStr (take 20 (''INV-'' @ decimal now))))"

text \<open>Lines 202 to 211: the customer id; \<open>None\<close> is a TypeError (a truthy \<open>userId\<close> that
  is no string has no \<open>trim\<close>).\<close>

definition customerIdOf :: "jsval \<Rightarrow> string option" where
  "customerIdOf userId' =
     (if truthy userId'
      then (case userId' of
              JStr u \<Rightarrow> Some (if trim u \<noteq> []
                               then (if length u \<le> 20 then u else take 20 u)
                               else [])
            | v \<Rightarrow> None)
      else Some [])"

text \<open>\<open>amount.toFixed(2)\<close>; \<open>None\<close> is a TypeError (only a number has the method).\<close>

definition toFixed2 :: "jsval \<Rightarrow> string option" where
  "toFixed2 amount' = (case amount' of JNum n \<Rightarrow> Some (numToString n @ ''.00'') | v \<Rightarrow> None)"

text \<open>Lines 176 to 225 of \<open>processApplePayTransaction\<close>, up to the transaction data.
  After the first read of a property of \<open>orderInfo\<close> has succeeded, \<open>orderInfo\<close> is neither
  \<open>null\<close> nor \<open>undefined\<close>, so the later reads cannot raise.\<close>

definition buildTransactionData ::
  "(string \<Rightarrow> jsval option) \<Rightarrow> nat \<Rightarrow> paymentRequest \<Rightarrow> failure + transactionData" where
  "buildTransactionData JSON_parse now req =
     (case parseToken JSON_parse (paymentToken req) of
        Inl e \<Rightarrow> Inl e
      | Inr applePayToken \<Rightarrow>
     (case getProp applePayToken ''paymentData'' of
        None \<Rightarrow> Inl typeError
      | Some paymentData \<Rightarrow>
     if \<not> truthy paymentData then Inl (newError ''Apple Pay token missing paymentData'')
     else
     (case encodePaymentData paymentData of
        None \<Rightarrow> Inl typeError
      | Some paymentDataValue \<Rightarrow>
     let oi = (if orderInfo req = JUndefined then JObj [] else orderInfo req)
     in
     (case invoiceNumberOf now oi of
        None \<Rightarrow> Inl typeError
      | Some invoiceNumber' \<Rightarrow>
     (case customerIdOf (userId req) of
        None \<Rightarrow> Inl typeError
      | Some customerId' \<Rightarrow>
     (case toFixed2 (req_amount req) of
        None \<Rightarrow> Inl typeError
      | Some amountText \<Rightarrow>
          Inr \<lparr>refId = js_or (getPropOpt oi ''orderId'') (JStr (''ORDER-'' @ decimal now)),
               amount = JStr amountText,
               dataDescriptor = JStr ''COMMON.APPLE.INAPP.PAYMENT'',
               dataValue = JStr paymentDataValue,
               invoiceNumber = invoiceNumber',
               description = js_or (getPropOpt oi ''description'') (JStr ''Apple Pay Payment''),
               customerId = JStr customerId',
               email = js_or (getPropOpt oi ''email'') (JStr []),
               billingAddress = js_or (getPropOpt oi ''billingAddress'') (JObj [])\<rparr>))))))"

subsection \<open>Classifying the response\<close>

text \<open>\<open>e.text || e.errorText || e.code || e.errorCode\<close>, as \<open>join\<close> prints it.\<close>

fun entryText :: "errorEntry \<Rightarrow> string" where
  "entryText (MessageError code text) = (if text \<noteq> [] then text else code)"
| "entryText (TransactionError errorCode errorText) =
     (if errorText \<noteq> [] then errorText else errorCode)"

definition orNil :: "'a list option \<Rightarrow> 'a list" where
  "orNil m = (case m of Some xs \<Rightarrow> xs | None \<Rightarrow> [])"

text \<open>Lines 262 to 277: the error thrown when the envelope's result code is not \<open>Ok\<close>.\<close>

definition envelopeFailure :: "parsedResponse \<Rightarrow> failure" where
  "envelopeFailure parsed =
     (let errorMessages = orNil (message (messages parsed));
          transactionErrors = orNil (errors (transactionResponse parsed));
          allErrors = errorMessages @ transactionErrors;
          errorMessage = (if length allErrors > 0
                          then join ''; '' (map entryText allErrors)
                          else ''Authorize.Net transaction failed'')
      in (newError errorMessage)
           \<lparr>err_authorizeNetError := Some
              \<lparr>ane_status = None, ane_statusText = None,
               ane_resultCode = resultCode (messages parsed),
               ane_responseCode = None,
               ane_errors = allErrors,
               ane_messageErrors = Some errorMessages,
               ane_transactionErrors = Some transactionErrors,
               ane_response = parsed,
               ane_rawResponse = None\<rparr>\<rparr>)"

text \<open>Lines 283 to 288: the error thrown when the transaction's response code is not
  \<open>1\<close>.\<close>

definition declinedFailure :: "parsedResponse \<Rightarrow> failure" where
  "declinedFailure parsed =
     (newError ''Transaction was declined'')
       \<lparr>err_authorizeNetError := Some
          \<lparr>ane_status = None, ane_statusText = None,
           ane_resultCode = None,
           ane_responseCode = responseCode (transactionResponse parsed),
           ane_errors = orNil (errors (transactionResponse parsed)),
           ane_messageErrors = None,
           ane_transactionErrors = None,
           ane_response = parsed,
           ane_rawResponse = None\<rparr>\<rparr>"

text \<open>Lines 260 to 300: the envelope check, the transaction check, the success result.\<close>

definition checkResponse :: "parsedResponse \<Rightarrow> jsval \<Rightarrow> failure + transactionResult" where
  "checkResponse parsed amt =
     (if resultCode (messages parsed) \<noteq> Some ''Ok'' then Inl (envelopeFailure parsed)
      else if responseCode (transactionResponse parsed) \<noteq> Some ''1''
        then Inl (declinedFailure parsed)
      else
        Inr \<lparr>success = True,
             transactionId = transId (transactionResponse parsed),
             res_authCode = authCode (transactionResponse parsed),
             res_responseCode = responseCode (transactionResponse parsed),
             res_amount = amt,
             details = transactionResponse parsed\<rparr>)"

text \<open>Lines 302 to 338: the \<open>catch\<close> block, which enriches the error and throws it again.\<close>

definition enhanceError :: "failure \<Rightarrow> failure" where
  "enhanceError e =
     (case err_response e of
        Some r \<Rightarrow>
          let parsed = parseXmlResponse (http_data r);
              errorMessages = orNil (message (messages parsed));
              transactionErrors = orNil (errors (transactionResponse parsed))
          in e\<lparr>err_authorizeNetError := Some
                 \<lparr>ane_status = Some (http_status r),
                  ane_statusText = Some (http_statusText r),
                  ane_resultCode = resultCode (messages parsed),
                  ane_responseCode = None,
                  ane_errors = errorMessages @ transactionErrors,
                  ane_messageErrors = Some errorMessages,
                  ane_transactionErrors = Some transactionErrors,
                  ane_response = parsed,
                  ane_rawResponse = Some (http_data r)\<rparr>\<rparr>
      | None \<Rightarrow>
          (case err_authorizeNetError e of
             Some a \<Rightarrow>
               if length (ane_errors a) = 0
               then e\<lparr>err_authorizeNetError := Some
                      (a\<lparr>ane_errors := orNil (ane_messageErrors a)
                                        @ orNil (ane_transactionErrors a)\<rparr>)\<rparr>
               else e
           | None \<Rightarrow> e))"

text \<open>The whole function: the effects it performed and what it returns or throws.
  \<open>post\<close> is the gateway as \<open>axios.post\<close> sees it.\<close>

definition processApplePayTransaction ::
  "(string \<Rightarrow> jsval option) \<Rightarrow> nat \<Rightarrow> (string \<Rightarrow> string \<Rightarrow> postOutcome) \<Rightarrow> config
     \<Rightarrow> paymentRequest \<Rightarrow> effect list \<times> (failure + transactionResult)" where
  "processApplePayTransaction JSON_parse now post cfg req =
     (case buildTransactionData JSON_parse now req of
        Inl e \<Rightarrow> ([], Inl (enhanceError e))
      | Inr td \<Rightarrow>
          let xmlRequest = createXmlRequest cfg td
          in ([AxiosPost (baseUrl cfg) xmlRequest],
              (case post (baseUrl cfg) xmlRequest of
                 Resolved r \<Rightarrow>
                   (case checkResponse (parseXmlResponse (http_data r)) (req_amount req) of
                      Inl e \<Rightarrow> Inl (enhanceError e)
                    | Inr res \<Rightarrow> Inr res)
               | RejectedWithResponse msg r \<Rightarrow> Inl (enhanceError (axiosError msg (Some r)))
               | RejectedNoResponse msg \<Rightarrow> Inl (enhanceError (axiosError msg None)))))"

section \<open>The HTTP handlers\<close>

subsection \<open>Merchant validation: POST /validate\<close>

text \<open>What the request to the wallet provider comes to: a complete response (status code,
  status message, body), an \<open>error\<close> event, the 10 second timeout, or \<open>https.request\<close>
  itself raising (a value that is no URL).\<close>

datatype upstream =
    Responded int string string
  | RequestError string
  | TimedOut
  | RequestThrew

record validateOk =
  vo_success :: bool
  merchantSession :: jsval

text \<open>
  The handler of lines 34 to 176, with its effects in order, and before it the request
  body of lines 86 to 90. \<open>readFileSync\<close> gives the
  file's text or the message of the error it raises; \<open>httpsRequest\<close> takes the URL, the
  key, the certificate and the request body; \<open>hostname\<close> and \<open>host\<close> are
  \<open>req.hostname\<close> and \<open>req.get('host')\<close>; \<open>body\<close> is \<open>req.body\<close>.
\<close>

definition validationRequestData :: "config \<Rightarrow> jsval \<Rightarrow> jsval \<Rightarrow> string" where
  "validationRequestData cfg hostname host =
     orEmpty (JSON_stringify (JObj
       [(''merchantIdentifier'', JStr (appleMerchantId cfg)),
        (''domainName'', js_or hostname host),
        (''displayName'', JStr ''Apple Pay POC'')]))"

definition validateHandler ::
  "(string \<Rightarrow> jsval option) \<Rightarrow> (string \<Rightarrow> string + string)
     \<Rightarrow> (jsval \<Rightarrow> string \<Rightarrow> string \<Rightarrow> string \<Rightarrow> upstream) \<Rightarrow> config \<Rightarrow> jsval \<Rightarrow> jsval \<Rightarrow> jsval
     \<Rightarrow> effect list \<times> (failure + validateOk)" where
  "validateHandler JSON_parse readFileSync httpsRequest cfg hostname host body =
     (case getProp body ''validationURL'' of
        None \<Rightarrow> ([], Inl typeError)
      | Some validationURL \<Rightarrow>
     if \<not> truthy validationURL
     then ([], Inl ((newError ''validationURL is required'')
                     \<lparr>err_type := Some ''validation'',
                      err_details := Some (''validationURL'', ''required'')\<rparr>))
     else
     (case readFileSync (appleMerchantCertPath cfg) of
        Inl msg \<Rightarrow>
          ([ReadFile (appleMerchantCertPath cfg)],
           Inl ((newError (''Failed to load merchant certificate: '' @ msg))
                 \<lparr>err_code := Some ''ENOENT'',
                  err_applePayError := Some
                    \<lparr>ape_type = Some ''CertificateError'',
                     ape_message = Some ''Merchant identity certificate not found'',
                     ape_path = Some (appleMerchantCertPath cfg),
                     ape_statusCode = None, ape_statusMessage = None,
                     ape_response = None\<rparr>\<rparr>))
      | Inr merchantCert \<Rightarrow>
     (case readFileSync (appleMerchantKeyPath cfg) of
        Inl msg \<Rightarrow>
          ([ReadFile (appleMerchantCertPath cfg), ReadFile (appleMerchantKeyPath cfg)],
           Inl ((newError (''Failed to load merchant private key: '' @ msg))
                 \<lparr>err_code := Some ''ENOENT'',
                  err_applePayError := Some
                    \<lparr>ape_type = Some ''CertificateError'',
                     ape_message = Some ''Merchant private key not found'',
                     ape_path = Some (appleMerchantKeyPath cfg),
                     ape_statusCode = None, ape_statusMessage = None,
                     ape_response = None\<rparr>\<rparr>))
      | Inr merchantKey \<Rightarrow>
     let requestData = validationRequestData cfg hostname host
     in ([ReadFile (appleMerchantCertPath cfg), ReadFile (appleMerchantKeyPath cfg),
          HttpsRequest validationURL requestData],
         (case httpsRequest validationURL merchantKey merchantCert requestData of
            Responded statusCode statusMessage data \<Rightarrow>
              if statusCode = 200
              then (case JSON_parse data of
                      Some session \<Rightarrow> Inr \<lparr>vo_success = True, merchantSession = session\<rparr>
                    | None \<Rightarrow>
                        Inl ((newError ''Failed to parse Apple validation response'')
                              \<lparr>err_originalError := Some [],
                               err_applePayError := Some
                                 \<lparr>ape_type = None, ape_message = None, ape_path = None,
                                  ape_statusCode = None, ape_statusMessage = None,
                                  ape_response = Some data\<rparr>\<rparr>))
              else Inl ((newError (''Apple validation failed with status ''
                                     @ numToString statusCode))
                         \<lparr>err_applePayError := Some
                            \<lparr>ape_type = None, ape_message = None, ape_path = None,
                             ape_statusCode = Some statusCode,
                             ape_statusMessage = Some statusMessage,
                             ape_response = Some data\<rparr>\<rparr>)
          | RequestError msg \<Rightarrow>
              Inl ((newError (''Network error during merchant validation: '' @ msg))
                    \<lparr>err_originalError := Some msg,
                     err_applePayError := Some
                       \<lparr>ape_type = Some ''NetworkError'', ape_message = Some msg,
                        ape_path = None, ape_statusCode = None, ape_statusMessage = None,
                        ape_response = None\<rparr>\<rparr>)
          | TimedOut \<Rightarrow>
              Inl ((newError ''Merchant validation request timeout'')
                    \<lparr>err_applePayError := Some
                       \<lparr>ape_type = Some ''TimeoutError'', ape_message = None,
                        ape_path = None, ape_statusCode = None, ape_statusMessage = None,
                        ape_response = None\<rparr>\<rparr>)
          | RequestThrew \<Rightarrow> Inl typeError)))))"

subsection \<open>Payment processing: POST /process\<close>










section \<open>Example inputs\<close>

text \<open>A gateway configuration, the request of the specification's scenarios A and B, and
  gateway response bodies: an envelope-level failure, and a decline under an \<open>Ok\<close>
  envelope.\<close>

definition exampleConfig :: config where
  "exampleConfig = \<lparr>apiLoginId = ''login'', transactionKey = ''key'',
     baseUrl = ''https://apitest.authorize.net/xml/v1/request.api'',
     appleMerchantId = ''merchant.example'', appleMerchantCertPath = ''/certs/cert.pem'',
     appleMerchantKeyPath = ''/certs/key.pem''\<rparr>"

definition exampleRequest :: paymentRequest where
  "exampleRequest = \<lparr>paymentToken = JObj [(''paymentData'',
        JObj [(''data'', JStr ''AB==''), (''signature'', JStr ''sig''),
              (''header'', JObj [(''transactionId'', JStr ''t1'')]),
              (''version'', JStr ''EC_v1'')])],
     req_amount = JNum 10, userId = JStr ''u1'', orderInfo = JObj []\<rparr>"

definition envelopeErrorBody :: string where
  "envelopeErrorBody = ''<messages><resultCode>Error</resultCode><message><code>E00027</code><text>Failed</text></message></messages><transactionResponse><responseCode>1</responseCode><errors><error><errorCode>8</errorCode><errorText>Expired</errorText></error></errors></transactionResponse>''"

definition declinedBody :: string where
  "declinedBody = ''<messages><resultCode>Ok</resultCode></messages><transactionResponse><responseCode>2</responseCode><errors><error><errorCode>2</errorCode><errorText>Declined</errorText></error></errors></transactionResponse>''"


definition stubGateway :: "string \<Rightarrow> string \<Rightarrow> string \<Rightarrow> postOutcome" where
  "stubGateway body url xml = Resolved \<lparr>http_status = 200, http_statusText = ''OK'', http_data = body\<rparr>"

section \<open>Properties of the request document\<close>

lemma replaceAll_Nil [simp]: "replaceAll c r [] = []"
  by (simp add: replaceAll_def)

lemma replaceAll_Cons:
  "replaceAll c r (x # xs) = (if x = c then r else [x]) @ replaceAll c r xs"
  by (simp add: replaceAll_def)

lemma replaceAll_append:
  "replaceAll c r (xs @ ys) = replaceAll c r xs @ replaceAll c r ys"
  by (simp add: replaceAll_def)

lemma escapeXml_JStr_Nil [simp]: "escapeXml (JStr []) = []"
  by (simp add: escapeXml_def)

lemma escapeXml_JStr_Cons:
  "escapeXml (JStr (x # xs)) =
     (if x = CHR ''&'' then ''&amp;''
      else if x = CHR ''<'' then ''&lt;''
      else if x = CHR ''>'' then ''&gt;''
      else if x = CHR 0x22 then ''&quot;''
      else if x = CHR 0x27 then ''&apos;''
      else [x]) @ escapeXml (JStr xs)"
  by (cases "xs = []") (simp_all add: escapeXml_def replaceAll_Cons replaceAll_append)

lemma escapeXml_falsy: "\<not> truthy v \<Longrightarrow> escapeXml v = []"
  by (simp add: escapeXml_def)

lemma escapeXml_truthy: "truthy v \<Longrightarrow> escapeXml v = escapeXml (JStr (toString v))"
  by (simp add: escapeXml_def)

lemma filter_markup_escapeXml_JStr: "filter is_markup (escapeXml (JStr s)) = []"
  by (induction s) (simp_all add: escapeXml_JStr_Cons is_markup_def)

lemma filter_markup_escapeXml [simp]: "filter is_markup (escapeXml v) = []"
  using filter_markup_escapeXml_JStr [of "toString v"]
  by (cases "truthy v") (simp_all add: escapeXml_falsy escapeXml_truthy)

lemma startsWith_append: "startsWith s p \<Longrightarrow> startsWith (s @ t) p"
  by (induction s p rule: startsWith.induct) (simp_all split: if_splits)

lemma starts_entity_append: "starts_entity s \<Longrightarrow> starts_entity (s @ t)"
  unfolding starts_entity_def using startsWith_append by blast

lemma amp_ok_append: "amp_ok a \<Longrightarrow> amp_ok b \<Longrightarrow> amp_ok (a @ b)"
  by (induction a) (auto simp: starts_entity_append)


lemma amp_ok_concat: "(\<And>x. x \<in> set xs \<Longrightarrow> amp_ok x) \<Longrightarrow> amp_ok (concat xs)"
  by (induction xs) (simp_all add: amp_ok_append)

lemma amp_ok_escapeXml_JStr: "amp_ok (escapeXml (JStr s))"
proof (induction s)
  case Nil
  show ?case by simp
next
  case (Cons x xs)
  have "amp_ok (if x = CHR ''&'' then ''&amp;''
      else if x = CHR ''<'' then ''&lt;''
      else if x = CHR ''>'' then ''&gt;''
      else if x = CHR 0x22 then ''&quot;''
      else if x = CHR 0x27 then ''&apos;''
      else [x])"
    by (simp add: starts_entity_def)
  with Cons show ?case
    by (simp only: escapeXml_JStr_Cons amp_ok_append)
qed

lemma amp_ok_escapeXml [simp]: "amp_ok (escapeXml v)"
  using amp_ok_escapeXml_JStr [of "toString v"]
  by (cases "truthy v") (simp_all add: escapeXml_falsy escapeXml_truthy)







section \<open>Properties of the outcome classification\<close>

lemma parse_envelopeErrorBody:
  "parseXmlResponse envelopeErrorBody =
     \<lparr>transactionResponse = \<lparr>responseCode = Some ''1'', authCode = None, transId = None,
         errors = Some [TransactionError ''8'' ''Expired'']\<rparr>,
      messages = \<lparr>resultCode = Some ''Error'',
         message = Some [MessageError ''E00027'' ''Failed'']\<rparr>\<rparr>"
  by code_simp

lemma parse_declinedBody:
  "parseXmlResponse declinedBody =
     \<lparr>transactionResponse = \<lparr>responseCode = Some ''2'', authCode = None, transId = None,
         errors = Some [TransactionError ''2'' ''Declined'']\<rparr>,
      messages = \<lparr>resultCode = Some ''Ok'', message = None\<rparr>\<rparr>"
  by code_simp

lemma build_exampleRequest:
  "\<exists>td. buildTransactionData JSON_parse now exampleRequest = Inr td"
  by (simp add: buildTransactionData_def exampleRequest_def Let_def parseToken_def
      encodePaymentData_def invoiceNumberOf_def customerIdOf_def toFixed2_def)

lemma enhanceError_checkResponse:
  assumes "checkResponse parsed amt = Inl e"
  shows "enhanceError e = e"
proof (cases "resultCode (messages parsed) \<noteq> Some ''Ok''")
  case True
  with assms have e: "e = envelopeFailure parsed"
    by (simp add: checkResponse_def)
  show ?thesis
    unfolding e envelopeFailure_def enhanceError_def newError_def
    by (simp add: orNil_def Let_def)
next
  case False
  with assms have e: "e = declinedFailure parsed"
    by (simp add: checkResponse_def split: if_splits)
  show ?thesis
    unfolding e declinedFailure_def enhanceError_def newError_def
    by (simp add: orNil_def)
qed

lemma processApplePayTransaction_resolved:
  "buildTransactionData JSON_parse now req = Inr td \<Longrightarrow>
   post (baseUrl cfg) (createXmlRequest cfg td) = Resolved r \<Longrightarrow>
   snd (processApplePayTransaction JSON_parse now post cfg req)
     = checkResponse (parseXmlResponse (http_data r)) (req_amount req)"
  by (cases "checkResponse (parseXmlResponse (http_data r)) (req_amount req)")
     (simp_all add: processApplePayTransaction_def Let_def enhanceError_checkResponse)

text \<open>
  C1. When the envelope's result code is not the string \<open>Ok\<close> (or is absent), the
  response check throws: no success result is returned whatever the transaction-level
  response code is. The error's list \<open>errors\<close> is the envelope-level entries followed by
  the transaction-level entries, and this is the error that \<open>processApplePayTransaction\<close>
  throws whenever the gateway's reply parses to such a response.
\<close>

theorem envelope_failure_concatenates_errors:
  "resultCode (messages parsed) \<noteq> Some ''Ok'' \<Longrightarrow>
     (\<exists>e a. checkResponse parsed amt = Inl e
        \<and> err_authorizeNetError e = Some a
        \<and> ane_errors a = orNil (message (messages parsed)) @ orNil (errors (transactionResponse parsed))
        \<and> ane_resultCode a = resultCode (messages parsed)
        \<and> (\<forall>JSON_parse now post cfg req td r.
              buildTransactionData JSON_parse now req = Inr td
              \<and> post (baseUrl cfg) (createXmlRequest cfg td) = Resolved r
              \<and> parseXmlResponse (http_data r) = parsed \<and> req_amount req = amt
              \<longrightarrow> snd (processApplePayTransaction JSON_parse now post cfg req) = Inl e))"
proof -
  assume rc: "resultCode (messages parsed) \<noteq> Some ''Ok''"
  have e: "checkResponse parsed amt = Inl (envelopeFailure parsed)"
    using rc by (simp add: checkResponse_def)
  define e where "e = envelopeFailure parsed"
  have e: "checkResponse parsed amt = Inl e"
    using e by (simp add: e_def)
  obtain a where a: "err_authorizeNetError e = Some a"
    "ane_errors a = orNil (message (messages parsed)) @ orNil (errors (transactionResponse parsed))"
    "ane_resultCode a = resultCode (messages parsed)"
    by (simp add: e_def envelopeFailure_def newError_def Let_def)
  have "snd (processApplePayTransaction JSON_parse now post cfg req) = Inl e"
    if "buildTransactionData JSON_parse now req = Inr td"
      and "post (baseUrl cfg) (createXmlRequest cfg td) = Resolved r"
      and "parseXmlResponse (http_data r) = parsed" and "req_amount req = amt"
    for JSON_parse now post cfg req td r
    using processApplePayTransaction_resolved [of JSON_parse now req td post cfg r] that e
    by simp
  with e a show ?thesis by blast
qed

theorem envelope_failure_concatenates_errors_witness:
  "\<exists>e a. snd (processApplePayTransaction (\<lambda>s. None) 1700000000000
               (stubGateway envelopeErrorBody) exampleConfig exampleRequest) = Inl e
     \<and> err_authorizeNetError e = Some a
     \<and> ane_errors a = [MessageError ''E00027'' ''Failed'', TransactionError ''8'' ''Expired'']
     \<and> ane_resultCode a = Some ''Error''"
proof -
  let ?parsed = "parseXmlResponse envelopeErrorBody"
  have rc: "resultCode (messages ?parsed) \<noteq> Some ''Ok''"
    by (simp add: parse_envelopeErrorBody)
  obtain td where td: "buildTransactionData (\<lambda>s. None) 1700000000000 exampleRequest = Inr td"
    using build_exampleRequest by blast
  have amt: "req_amount exampleRequest = JNum 10"
    by (simp add: exampleRequest_def)
  from envelope_failure_concatenates_errors [OF rc, of "JNum 10"]
  obtain e a where e: "err_authorizeNetError e = Some a"
    "ane_errors a = orNil (message (messages ?parsed)) @ orNil (errors (transactionResponse ?parsed))"
    "ane_resultCode a = resultCode (messages ?parsed)"
    and all: "\<And>JSON_parse now post cfg req td r.
       buildTransactionData JSON_parse now req = Inr td
       \<and> post (baseUrl cfg) (createXmlRequest cfg td) = Resolved r
       \<and> parseXmlResponse (http_data r) = ?parsed \<and> req_amount req = JNum 10
       \<Longrightarrow> snd (processApplePayTransaction JSON_parse now post cfg req) = Inl e"
    by blast
  have "snd (processApplePayTransaction (\<lambda>s. None) 1700000000000
               (stubGateway envelopeErrorBody) exampleConfig exampleRequest) = Inl e"
    by (rule all [where td = td
          and r = "\<lparr>http_status = 200, http_statusText = ''OK'', http_data = envelopeErrorBody\<rparr>"])
       (simp add: td stubGateway_def amt)
  with e show ?thesis
    by (simp add: parse_envelopeErrorBody orNil_def)
qed

text \<open>
  C2. When the envelope's result code is \<open>Ok\<close> and the transaction's response code is not
  the string \<open>1\<close>, the function throws the error \<open>Transaction was declined\<close>, which carries
  the response code and the transaction-level error list and has none of the properties
  \<open>resultCode\<close>, \<open>messageErrors\<close>, \<open>transactionErrors\<close> of the envelope-level error: it
  differs from every envelope-level error.
\<close>

theorem declined_failure_is_distinct:
  "resultCode (messages parsed) = Some ''Ok'' \<Longrightarrow>
   responseCode (transactionResponse parsed) \<noteq> Some ''1'' \<Longrightarrow>
     (\<exists>e a. checkResponse parsed amt = Inl e
        \<and> err_message e = ''Transaction was declined''
        \<and> err_authorizeNetError e = Some a
        \<and> ane_responseCode a = responseCode (transactionResponse parsed)
        \<and> ane_errors a = orNil (errors (transactionResponse parsed))
        \<and> ane_resultCode a = None \<and> ane_messageErrors a = None \<and> ane_transactionErrors a = None
        \<and> (\<forall>parsed'. e \<noteq> envelopeFailure parsed')
        \<and> (\<forall>JSON_parse now post cfg req td r.
              buildTransactionData JSON_parse now req = Inr td
              \<and> post (baseUrl cfg) (createXmlRequest cfg td) = Resolved r
              \<and> parseXmlResponse (http_data r) = parsed \<and> req_amount req = amt
              \<longrightarrow> snd (processApplePayTransaction JSON_parse now post cfg req) = Inl e))"
proof -
  assume rc: "resultCode (messages parsed) = Some ''Ok''"
    and code: "responseCode (transactionResponse parsed) \<noteq> Some ''1''"
  define e where "e = declinedFailure parsed"
  have e: "checkResponse parsed amt = Inl e"
    using rc code by (simp add: checkResponse_def e_def)
  obtain a where a: "err_authorizeNetError e = Some a"
    "ane_responseCode a = responseCode (transactionResponse parsed)"
    "ane_errors a = orNil (errors (transactionResponse parsed))"
    "ane_resultCode a = None" "ane_messageErrors a = None" "ane_transactionErrors a = None"
    by (simp add: e_def declinedFailure_def newError_def)
  have msg: "err_message e = ''Transaction was declined''"
    by (simp add: e_def declinedFailure_def newError_def)
  have distinct: "e \<noteq> envelopeFailure parsed'" for parsed'
  proof
    assume "e = envelopeFailure parsed'"
    then have "err_authorizeNetError e = err_authorizeNetError (envelopeFailure parsed')"
      by simp
    then have "map_option ane_messageErrors (err_authorizeNetError e)
        = map_option ane_messageErrors (err_authorizeNetError (envelopeFailure parsed'))"
      by simp
    then show False
      by (simp add: a envelopeFailure_def newError_def Let_def)
  qed
  have "snd (processApplePayTransaction JSON_parse now post cfg req) = Inl e"
    if "buildTransactionData JSON_parse now req = Inr td"
      and "post (baseUrl cfg) (createXmlRequest cfg td) = Resolved r"
      and "parseXmlResponse (http_data r) = parsed" and "req_amount req = amt"
    for JSON_parse now post cfg req td r
    using processApplePayTransaction_resolved [of JSON_parse now req td post cfg r] that e
    by simp
  with e a msg distinct show ?thesis by blast
qed

theorem declined_failure_is_distinct_witness:
  "\<exists>e a. snd (processApplePayTransaction (\<lambda>s. None) 1700000000000
               (stubGateway declinedBody) exampleConfig exampleRequest) = Inl e
     \<and> err_message e = ''Transaction was declined''
     \<and> err_authorizeNetError e = Some a
     \<and> ane_responseCode a = Some ''2''
     \<and> ane_errors a = [TransactionError ''2'' ''Declined'']
     \<and> ane_messageErrors a = None
     \<and> e \<noteq> envelopeFailure (parseXmlResponse envelopeErrorBody)"
proof -
  let ?parsed = "parseXmlResponse declinedBody"
  have rc: "resultCode (messages ?parsed) = Some ''Ok''"
    by (simp add: parse_declinedBody)
  have code: "responseCode (transactionResponse ?parsed) \<noteq> Some ''1''"
    by (simp add: parse_declinedBody)
  obtain td where td: "buildTransactionData (\<lambda>s. None) 1700000000000 exampleRequest = Inr td"
    using build_exampleRequest by blast
  have amt: "req_amount exampleRequest = JNum 10"
    by (simp add: exampleRequest_def)
  from declined_failure_is_distinct [OF rc code, of "JNum 10"]
  obtain e a where e: "err_message e = ''Transaction was declined''"
    "err_authorizeNetError e = Some a"
    "ane_responseCode a = responseCode (transactionResponse ?parsed)"
    "ane_errors a = orNil (errors (transactionResponse ?parsed))"
    "ane_messageErrors a = None"
    and distinct: "\<And>parsed'. e \<noteq> envelopeFailure parsed'"
    and all: "\<And>JSON_parse now post cfg req td r.
       buildTransactionData JSON_parse now req = Inr td
       \<and> post (baseUrl cfg) (createXmlRequest cfg td) = Resolved r
       \<and> parseXmlResponse (http_data r) = ?parsed \<and> req_amount req = JNum 10
       \<Longrightarrow> snd (processApplePayTransaction JSON_parse now post cfg req) = Inl e"
    by blast
  have "snd (processApplePayTransaction (\<lambda>s. None) 1700000000000
               (stubGateway declinedBody) exampleConfig exampleRequest) = Inl e"
    by (rule all [where td = td
          and r = "\<lparr>http_status = 200, http_statusText = ''OK'', http_data = declinedBody\<rparr>"])
       (simp add: td stubGateway_def amt)
  with e distinct show ?thesis
    by (simp add: parse_declinedBody orNil_def)
qed

section \<open>Properties of the transaction data\<close>

lemma buildTransactionData_refId:
  assumes "buildTransactionData JSON_parse now req = Inr td"
  shows "refId td = js_or (getPropOpt (if orderInfo req = JUndefined then JObj [] else orderInfo req)
            ''orderId'') (JStr (''ORDER-'' @ decimal now))"
  using assms
  by (auto simp: buildTransactionData_def Let_def split: sum.splits option.splits if_splits)

lemma buildTransactionData_invoiceNumber:
  assumes "buildTransactionData JSON_parse now req = Inr td"
  shows "invoiceNumberOf now (if orderInfo req = JUndefined then JObj [] else orderInfo req)
           = Some (invoiceNumber td)"
  using assms
  by (auto simp: buildTransactionData_def Let_def split: sum.splits option.splits if_splits)

text \<open>
  C4. The invoice number is cut to its first 20 characters and the timestamp fallbacks are
  used when the caller supplies none, but the reference id is passed on as supplied: for
  the 23-character order id \<open>ORDER-2026-11-03-000001\<close> the transaction data hold all 23
  characters as \<open>refId\<close>, next to the invoice number cut to 20.
\<close>

theorem refId_is_not_truncated:
  "map_sum (\<lambda>e. ()) (\<lambda>td. (refId td, invoiceNumber td))
     (buildTransactionData (\<lambda>s. None) 1700000000000
        (exampleRequest\<lparr>orderInfo := JObj [(''orderId'', JStr ''ORDER-2026-11-03-000001''),
                                           (''invoiceNumber'', JStr ''INVOICE-2026-11-03-000001'')]\<rparr>))
   = Inr (JStr ''ORDER-2026-11-03-000001'', JStr ''INVOICE-2026-11-03-0'')
   \<and> length ''ORDER-2026-11-03-000001'' = 23
   \<and> map_sum (\<lambda>e. ()) (\<lambda>td. (refId td, invoiceNumber td))
        (buildTransactionData (\<lambda>s. None) 1700000000000 exampleRequest)
     = Inr (JStr ''ORDER-1700000000000'', JStr ''INV-1700000000000'')"
  by (simp add: buildTransactionData_def exampleRequest_def Let_def js_or_def getPropOpt_def
      decimal.simps parseToken_def encodePaymentData_def invoiceNumberOf_def customerIdOf_def
      toFixed2_def)

section \<open>Properties of the handlers\<close>

text \<open>
  C6. When \<open>validationURL\<close> is absent from the request body or is the empty string (or any
  other falsy value), the validation handler throws the error \<open>validationURL is required\<close>
  of type \<open>validation\<close> with the details field \<open>validationURL\<close> and constraint
  \<open>required\<close>, and has performed no effect: no certificate or key file was read and no
  request was sent.
\<close>

theorem validate_rejects_missing_url:
  "getProp body ''validationURL'' = Some v \<Longrightarrow> \<not> truthy v \<Longrightarrow>
   validateHandler JSON_parse readFileSync httpsRequest cfg hostname host body
     = ([], Inl ((newError ''validationURL is required'')
                  \<lparr>err_type := Some ''validation'',
                   err_details := Some (''validationURL'', ''required'')\<rparr>))"
  by (simp add: validateHandler_def)

theorem validate_rejects_missing_url_witness:
  "validateHandler (\<lambda>s. None) (\<lambda>path. Inr ''pem'') (\<lambda>url key cert data. TimedOut)
       exampleConfig (JStr ''shop.example'') JUndefined (JObj [])
     = ([], Inl ((newError ''validationURL is required'')
                  \<lparr>err_type := Some ''validation'',
                   err_details := Some (''validationURL'', ''required'')\<rparr>))
   \<and> validateHandler (\<lambda>s. None) (\<lambda>path. Inr ''pem'') (\<lambda>url key cert data. TimedOut)
       exampleConfig (JStr ''shop.example'') JUndefined (JObj [(''validationURL'', JStr [])])
     = ([], Inl ((newError ''validationURL is required'')
                  \<lparr>err_type := Some ''validation'',
                   err_details := Some (''validationURL'', ''required'')\<rparr>))"
proof -
  have a: "getProp (JObj []) ''validationURL'' = Some JUndefined" "\<not> truthy JUndefined"
    by simp_all
  have b: "getProp (JObj [(''validationURL'', JStr [])]) ''validationURL'' = Some (JStr [])"
    "\<not> truthy (JStr [])"
    by simp_all
  show ?thesis
    using validate_rejects_missing_url [OF a] validate_rejects_missing_url [OF b]
    by simp
qed

text \<open>
  C7. The validation handler answers with success only when the wallet provider's response
  has status 200 and a body that \<open>JSON.parse\<close> accepts, and the answer's \<open>merchantSession\<close>
  is then the parsed body itself. Once the URL is present and both credential files were
  read, a response with status 200 and a parseable body gives that success; a status other
  than 200 gives an error carrying the status code, the status message and the raw body;
  a body that does not parse gives a different error carrying the raw body.
\<close>

theorem validate_success_iff_200_and_json:
  "(snd (validateHandler JSON_parse readFileSync httpsRequest cfg hostname host body) = Inr ok
      \<longrightarrow> (\<exists>url key cert statusMessage data.
             getProp body ''validationURL'' = Some url
           \<and> httpsRequest url key cert (validationRequestData cfg hostname host)
               = Responded 200 statusMessage data
           \<and> JSON_parse data = Some (merchantSession ok)))
   \<and> (getProp body ''validationURL'' = Some url \<and> truthy url
      \<and> readFileSync (appleMerchantCertPath cfg) = Inr cert
      \<and> readFileSync (appleMerchantKeyPath cfg) = Inr key
      \<and> httpsRequest url key cert (validationRequestData cfg hostname host)
          = Responded statusCode statusMessage data
      \<longrightarrow> snd (validateHandler JSON_parse readFileSync httpsRequest cfg hostname host body)
          = (if statusCode = 200
             then (case JSON_parse data of
                     Some session \<Rightarrow> Inr \<lparr>vo_success = True, merchantSession = session\<rparr>
                   | None \<Rightarrow>
                       Inl ((newError ''Failed to parse Apple validation response'')
                             \<lparr>err_originalError := Some [],
                              err_applePayError := Some
                                \<lparr>ape_type = None, ape_message = None, ape_path = None,
                                 ape_statusCode = None, ape_statusMessage = None,
                                 ape_response = Some data\<rparr>\<rparr>))
             else Inl ((newError (''Apple validation failed with status ''
                                    @ numToString statusCode))
                        \<lparr>err_applePayError := Some
                           \<lparr>ape_type = None, ape_message = None, ape_path = None,
                            ape_statusCode = Some statusCode,
                            ape_statusMessage = Some statusMessage,
                            ape_response = Some data\<rparr>\<rparr>)))"
proof (intro conjI impI)
  assume ok: "snd (validateHandler JSON_parse readFileSync httpsRequest cfg hostname host body)
    = Inr ok"
  then show "\<exists>url key cert statusMessage data.
       getProp body ''validationURL'' = Some url
     \<and> httpsRequest url key cert (validationRequestData cfg hostname host)
         = Responded 200 statusMessage data
     \<and> JSON_parse data = Some (merchantSession ok)"
    by (auto simp: validateHandler_def Let_def
        split: option.splits sum.splits if_splits upstream.splits) blast
next
  assume "getProp body ''validationURL'' = Some url \<and> truthy url
      \<and> readFileSync (appleMerchantCertPath cfg) = Inr cert
      \<and> readFileSync (appleMerchantKeyPath cfg) = Inr key
      \<and> httpsRequest url key cert (validationRequestData cfg hostname host)
          = Responded statusCode statusMessage data"
  then show "snd (validateHandler JSON_parse readFileSync httpsRequest cfg hostname host body)
          = (if statusCode = 200
             then (case JSON_parse data of
                     Some session \<Rightarrow> Inr \<lparr>vo_success = True, merchantSession = session\<rparr>
                   | None \<Rightarrow>
                       Inl ((newError ''Failed to parse Apple validation response'')
                             \<lparr>err_originalError := Some [],
                              err_applePayError := Some
                                \<lparr>ape_type = None, ape_message = None, ape_path = None,
                                 ape_statusCode = None, ape_statusMessage = None,
                                 ape_response = Some data\<rparr>\<rparr>))
             else Inl ((newError (''Apple validation failed with status ''
                                    @ numToString statusCode))
                        \<lparr>err_applePayError := Some
                           \<lparr>ape_type = None, ape_message = None, ape_path = None,
                            ape_statusCode = Some statusCode,
                            ape_statusMessage = Some statusMessage,
                            ape_response = Some data\<rparr>\<rparr>))"
    by (simp add: validateHandler_def Let_def)
qed

theorem validate_success_iff_200_and_json_witness:
  "snd (validateHandler (\<lambda>s. if s = ''{}'' then Some (JObj []) else None)
          (\<lambda>path. Inr ''pem'') (\<lambda>url key cert data. Responded 200 ''OK'' ''{}'')
          exampleConfig (JStr ''shop.example'') JUndefined
          (JObj [(''validationURL'', JStr ''https://apple.example/session'')]))
     = Inr \<lparr>vo_success = True, merchantSession = JObj []\<rparr>
   \<and> snd (validateHandler (\<lambda>s. if s = ''{}'' then Some (JObj []) else None)
          (\<lambda>path. Inr ''pem'') (\<lambda>url key cert data. Responded 200 ''OK'' ''<html>'')
          exampleConfig (JStr ''shop.example'') JUndefined
          (JObj [(''validationURL'', JStr ''https://apple.example/session'')]))
     = Inl ((newError ''Failed to parse Apple validation response'')
             \<lparr>err_originalError := Some [],
              err_applePayError := Some
                \<lparr>ape_type = None, ape_message = None, ape_path = None,
                 ape_statusCode = None, ape_statusMessage = None,
                 ape_response = Some ''<html>''\<rparr>\<rparr>)
   \<and> snd (validateHandler (\<lambda>s. if s = ''{}'' then Some (JObj []) else None)
          (\<lambda>path. Inr ''pem'') (\<lambda>url key cert data. Responded 500 ''Server Error'' ''{}'')
          exampleConfig (JStr ''shop.example'') JUndefined
          (JObj [(''validationURL'', JStr ''https://apple.example/session'')]))
     = Inl ((newError ''Apple validation failed with status 500'')
             \<lparr>err_applePayError := Some
                \<lparr>ape_type = None, ape_message = None, ape_path = None,
                 ape_statusCode = Some 500, ape_statusMessage = Some ''Server Error'',
                 ape_response = Some ''{}''\<rparr>\<rparr>)"
proof -
  let ?parse = "\<lambda>s. if s = ''{}'' then Some (JObj []) else None"
  let ?read = "\<lambda>path :: string. Inr ''pem'' :: string + string"
  let ?body = "JObj [(''validationURL'', JStr ''https://apple.example/session'')]"
  let ?url = "JStr ''https://apple.example/session''"
  have pre: "getProp ?body ''validationURL'' = Some ?url \<and> truthy ?url
      \<and> ?read (appleMerchantCertPath exampleConfig) = Inr ''pem''
      \<and> ?read (appleMerchantKeyPath exampleConfig) = Inr ''pem''"
    by simp
  have n: "numToString 500 = ''500''"
    by (simp add: numToString_def decimal.simps)
  note t = validate_success_iff_200_and_json [where JSON_parse = ?parse and readFileSync = ?read
      and cfg = exampleConfig and hostname = "JStr ''shop.example''" and host = JUndefined
      and body = ?body and url = ?url and cert = "''pem''" and key = "''pem''",
      THEN conjunct2, rule_format]
  have 1: "snd (validateHandler ?parse ?read (\<lambda>url key cert data. Responded 200 ''OK'' ''{}'')
          exampleConfig (JStr ''shop.example'') JUndefined ?body)
     = Inr \<lparr>vo_success = True, merchantSession = JObj []\<rparr>"
    using t [where httpsRequest = "\<lambda>url key cert data. Responded 200 ''OK'' ''{}''"
        and statusCode = 200 and statusMessage = "''OK''" and data = "''{}''"] pre
    by simp
  have 2: "snd (validateHandler ?parse ?read (\<lambda>url key cert data. Responded 200 ''OK'' ''<html>'')
          exampleConfig (JStr ''shop.example'') JUndefined ?body)
     = Inl ((newError ''Failed to parse Apple validation response'')
             \<lparr>err_originalError := Some [],
              err_applePayError := Some
                \<lparr>ape_type = None, ape_message = None, ape_path = None,
                 ape_statusCode = None, ape_statusMessage = None,
                 ape_response = Some ''<html>''\<rparr>\<rparr>)"
    using t [where httpsRequest = "\<lambda>url key cert data. Responded 200 ''OK'' ''<html>''"
        and statusCode = 200 and statusMessage = "''OK''" and data = "''<html>''"] pre
    by simp
  have 3: "snd (validateHandler ?parse ?read
          (\<lambda>url key cert data. Responded 500 ''Server Error'' ''{}'')
          exampleConfig (JStr ''shop.example'') JUndefined ?body)
     = Inl ((newError ''Apple validation failed with status 500'')
             \<lparr>err_applePayError := Some
                \<lparr>ape_type = None, ape_message = None, ape_path = None,
                 ape_statusCode = Some 500, ape_statusMessage = Some ''Server Error'',
                 ape_response = Some ''{}''\<rparr>\<rparr>)"
    using t [where httpsRequest = "\<lambda>url key cert data. Responded 500 ''Server Error'' ''{}''"
        and statusCode = 500 and statusMessage = "''Server Error''" and data = "''{}''"] pre n
    by simp
  from 1 2 3 show ?thesis by blast
qed





section \<open>Properties of the response parser\<close>





















end
